theory Spec2Isabelle
  imports Complex_Main
begin

section \<open>Python values and exceptions\<close>

text \<open>
  Exceptions of the Python runtime and of the \<open>sqlite3\<close> module that the modelled
  functions can raise. A function that may raise returns \<open>error + 'a\<close>, with \<open>Inl\<close>
  for the exception. The two constructors with an argument carry the text that
  \<open>str(e)\<close> shows.
\<close>

datatype error =
    ValueError string
  | TypeError
  | IndexError
  | AttributeError
  | OverflowError
  | InterfaceError
  | OperationalError string
  | FileNotFoundError
  | RequestException

text \<open>
  Python floats are modelled by their exact real value, with the three special values of
  IEEE arithmetic kept apart; rounding to 53 bits and overflow to infinity are not
  modelled.
\<close>

datatype pyfloat = Finite real | PosInf | NegInf | NaN

fun fneg :: "pyfloat \<Rightarrow> pyfloat" where
  "fneg (Finite x) = Finite (- x)"
| "fneg PosInf = NegInf"
| "fneg NegInf = PosInf"
| "fneg NaN = NaN"

fun fadd :: "pyfloat \<Rightarrow> pyfloat \<Rightarrow> pyfloat" where
  "fadd (Finite x) (Finite y) = Finite (x + y)"
| "fadd NaN _ = NaN"
| "fadd _ NaN = NaN"
| "fadd PosInf NegInf = NaN"
| "fadd NegInf PosInf = NaN"
| "fadd PosInf _ = PosInf"
| "fadd NegInf _ = NegInf"
| "fadd _ PosInf = PosInf"
| "fadd _ NegInf = NegInf"

text \<open>Division of a float by a positive integer constant (\<open>x / 60\<close>, \<open>x / 3600\<close>).\<close>

fun fdiv_const :: "pyfloat \<Rightarrow> nat \<Rightarrow> pyfloat" where
  "fdiv_const (Finite x) k = Finite (x / real k)"
| "fdiv_const PosInf k = PosInf"
| "fdiv_const NegInf k = NegInf"
| "fdiv_const NaN k = NaN"

section \<open>The builtin \<open>float(str)\<close>\<close>

text \<open>
  Strings are lists of characters with code points below 256. \<open>float\<close> strips white
  space, reads an optional sign, and then either one of the words \<open>inf\<close>,
  \<open>infinity\<close>, \<open>nan\<close> in any letter case, or a decimal number: digits with
  single underscores between them, an optional fraction, an optional exponent.
\<close>

definition is_digit :: "char \<Rightarrow> bool" where
  "is_digit c = (c \<in> set ''0123456789'')"

definition digit_val :: "char \<Rightarrow> nat" where
  "digit_val c = of_char c - 48"

definition is_space :: "char \<Rightarrow> bool" where
  "is_space c = ((of_char c :: nat) \<in> {9, 10, 11, 12, 13, 28, 29, 30, 31, 32, 133, 160})"

definition strip :: "string \<Rightarrow> string" where
  "strip s = rev (dropWhile is_space (rev (dropWhile is_space s)))"

definition lower_char :: "char \<Rightarrow> char" where
  "lower_char c =
     (case map_of (zip ''ABCDEFGHIJKLMNOPQRSTUVWXYZ'' ''abcdefghijklmnopqrstuvwxyz'') c of
        Some l \<Rightarrow> l | None \<Rightarrow> c)"

definition upper_char :: "char \<Rightarrow> char" where
  "upper_char c =
     (case map_of (zip ''abcdefghijklmnopqrstuvwxyz'' ''ABCDEFGHIJKLMNOPQRSTUVWXYZ'') c of
        Some u \<Rightarrow> u | None \<Rightarrow> c)"

text \<open>The digits after a first digit: \<open>(["_"] digit)*\<close>, and the text left over.\<close>

fun digits_tail :: "string \<Rightarrow> nat list \<times> string" where
  "digits_tail [] = ([], [])"
| "digits_tail [c] = (if is_digit c then ([digit_val c], []) else ([], [c]))"
| "digits_tail (c # d # cs) =
     (if is_digit c then
        (case digits_tail (d # cs) of (ds, r) \<Rightarrow> (digit_val c # ds, r))
      else if c = CHR ''_'' \<and> is_digit d then
        (case digits_tail cs of (ds, r) \<Rightarrow> (digit_val d # ds, r))
      else ([], c # d # cs))"

definition digitpart :: "string \<Rightarrow> (nat list \<times> string) option" where
  "digitpart s =
     (case s of
        [] \<Rightarrow> None
      | c # cs \<Rightarrow>
          if is_digit c then
            (case digits_tail cs of (ds, r) \<Rightarrow> Some (digit_val c # ds, r))
          else None)"

definition nat_of_digits :: "nat list \<Rightarrow> nat" where
  "nat_of_digits ds = foldl (\<lambda>acc d. 10 * acc + d) 0 ds"

text \<open>\<open>number ::= [digitpart] "." digitpart | digitpart ["."]\<close>: integer digits,
  fraction digits and the rest.\<close>

definition number_part :: "string \<Rightarrow> (nat list \<times> nat list \<times> string) option" where
  "number_part s =
     (case digitpart s of
        Some (ip, r) \<Rightarrow>
          (case r of
             [] \<Rightarrow> Some (ip, [], r)
           | c # r' \<Rightarrow>
               if c = CHR ''.'' then
                 (case digitpart r' of
                    Some (fp, r'') \<Rightarrow> Some (ip, fp, r'')
                  | None \<Rightarrow> Some (ip, [], r'))
               else Some (ip, [], r))
      | None \<Rightarrow>
          (case s of
             [] \<Rightarrow> None
           | c # r' \<Rightarrow>
               if c = CHR ''.'' then
                 (case digitpart r' of
                    Some (fp, r'') \<Rightarrow> Some ([], fp, r'')
                  | None \<Rightarrow> None)
               else None))"

text \<open>\<open>exponent ::= ("e" | "E") [sign] digitpart\<close>; no exponent is exponent 0.\<close>

definition exponent_part :: "string \<Rightarrow> (int \<times> string) option" where
  "exponent_part s =
     (case s of
        [] \<Rightarrow> Some (0, [])
      | c # r \<Rightarrow>
          if c = CHR ''e'' \<or> c = CHR ''E'' then
            (case r of
               [] \<Rightarrow> None
             | sg # r' \<Rightarrow>
                 if sg = CHR ''-'' then
                   (case digitpart r' of
                      Some (ds, r'') \<Rightarrow> Some (- int (nat_of_digits ds), r'')
                    | None \<Rightarrow> None)
                 else if sg = CHR ''+'' then
                   (case digitpart r' of
                      Some (ds, r'') \<Rightarrow> Some (int (nat_of_digits ds), r'')
                    | None \<Rightarrow> None)
                 else
                   (case digitpart r of
                      Some (ds, r'') \<Rightarrow> Some (int (nat_of_digits ds), r'')
                    | None \<Rightarrow> None))
          else Some (0, s))"

definition pow10 :: "int \<Rightarrow> real" where
  "pow10 e = (if 0 \<le> e then 10 ^ nat e else 1 / 10 ^ nat (- e))"

definition abs_float_value :: "string \<Rightarrow> pyfloat option" where
  "abs_float_value s =
     (if map lower_char s = ''inf'' \<or> map lower_char s = ''infinity'' then Some PosInf
      else if map lower_char s = ''nan'' then Some NaN
      else
        (case number_part s of
           None \<Rightarrow> None
         | Some (ip, fp, r) \<Rightarrow>
             (case exponent_part r of
                Some (e, []) \<Rightarrow>
                  Some (Finite ((real (nat_of_digits ip)
                                 + real (nat_of_digits fp) / 10 ^ length fp) * pow10 e))
              | _ \<Rightarrow> None)))"

definition py_float :: "string \<Rightarrow> error + pyfloat" where
  "py_float s =
     (let t = strip s;
          r = (case t of
                 [] \<Rightarrow> None
               | c # cs \<Rightarrow>
                   if c = CHR ''-'' then map_option fneg (abs_float_value cs)
                   else if c = CHR ''+'' then abs_float_value cs
                   else abs_float_value t)
      in case r of
           None \<Rightarrow> Inl (ValueError (''could not convert string to float''))
         | Some v \<Rightarrow> Inr v)"

section \<open>The coordinate parser\<close>

text \<open>\<open>str.split(sep)\<close> for a one-character separator: every occurrence splits, and
  empty pieces are kept.\<close>

fun split_on :: "char \<Rightarrow> string \<Rightarrow> string list" where
  "split_on sep [] = [[]]"
| "split_on sep (c # cs) =
     (if c = sep then [] # split_on sep cs
      else (case split_on sep cs of
              [] \<Rightarrow> [[c]]
            | p # ps \<Rightarrow> (c # p) # ps))"

text \<open>
  The body of the \<open>try\<close> block of \<open>UBIKAISDatabase._parse_coordinate\<close>, for a
  non-empty string: any exception of \<open>float\<close> or of an index leaves it as \<open>Inl\<close>.
\<close>

definition parse_coordinate_try :: "string \<Rightarrow> error + pyfloat" where
  "parse_coordinate_try coord_str =
     (if CHR ''-'' \<in> set coord_str then
        (case coord_str of
           [] \<Rightarrow> Inl IndexError
         | direction # rest \<Rightarrow>
             (let parts = split_on (CHR ''-'') rest in
              case py_float (parts ! 0) of
                Inl e \<Rightarrow> Inl e
              | Inr degrees \<Rightarrow>
                  (case (if length parts > 1 then py_float (parts ! 1) else Inr (Finite 0)) of
                     Inl e \<Rightarrow> Inl e
                   | Inr minutes \<Rightarrow>
                       (case (if length parts > 2 then py_float (parts ! 2)
                              else Inr (Finite 0)) of
                          Inl e \<Rightarrow> Inl e
                        | Inr seconds \<Rightarrow>
                            (let decimal = fadd (fadd degrees (fdiv_const minutes 60))
                                                (fdiv_const seconds 3600)
                             in if direction \<in> set [CHR ''S'', CHR ''W'']
                                then Inr (fneg decimal) else Inr decimal)))))
      else py_float coord_str)"

text \<open>
  \<open>_parse_coordinate\<close> itself: \<open>None\<close> for an empty string, and the bare
  \<open>except\<close> turns every exception of the body into \<open>None\<close>. The result type keeps
  the place for an exception that would leave the function.
\<close>

definition parse_coordinate :: "string \<Rightarrow> error + pyfloat option" where
  "parse_coordinate coord_str =
     (if coord_str = [] then Inr None
      else (case parse_coordinate_try coord_str of
              Inl e \<Rightarrow> Inr None
            | Inr decimal \<Rightarrow> Inr (Some decimal)))"

section \<open>Python values\<close>

text \<open>
  The values that reach the store: what \<open>json.loads\<close> produces (\<open>None\<close>, booleans,
  unbounded integers, floats, strings, lists, and dictionaries with string keys), which is
  also what the functions of the store compute from them. A dictionary is the list of its
  items; \<open>dict_get\<close> reads the first item with the key, so a key counts once.
\<close>

datatype pyval =
    PNone
  | PBool bool
  | PInt int
  | PFloat pyfloat
  | PStr string
  | PList "pyval list"
  | PDict "(string \<times> pyval) list"

text \<open>Truth value testing: \<open>None\<close>, \<open>False\<close>, zero, and empty strings, lists and
  dictionaries are false.\<close>

fun truthy :: "pyval \<Rightarrow> bool" where
  "truthy PNone = False"
| "truthy (PBool b) = b"
| "truthy (PInt i) = (i \<noteq> 0)"
| "truthy (PFloat f) = (f \<noteq> Finite 0)"
| "truthy (PStr s) = (s \<noteq> [])"
| "truthy (PList xs) = (xs \<noteq> [])"
| "truthy (PDict kvs) = (kvs \<noteq> [])"

text \<open>\<open>a or b\<close>: the first operand when it is true, else the second.\<close>

definition por :: "pyval \<Rightarrow> pyval \<Rightarrow> pyval" where
  "por a b = (if truthy a then a else b)"

text \<open>\<open>d.get(k)\<close>: the value, or \<open>None\<close> for a missing key.\<close>

definition dict_get :: "(string \<times> pyval) list \<Rightarrow> string \<Rightarrow> pyval" where
  "dict_get d k = (case map_of d k of None \<Rightarrow> PNone | Some v \<Rightarrow> v)"

section \<open>The SQLite store\<close>

text \<open>
  A stored value is \<open>NULL\<close>, an integer, a real or a text. A row gives the values of
  the columns that the inserting statement names; the \<open>id\<close> that SQLite assigns and the
  columns filled by a \<open>DEFAULT\<close> are not modelled, and neither is the conversion of a
  value to the declared type of its column. A table has its declared column names, its
  \<open>UNIQUE\<close> constraints (each a list of column names) and its rows in insertion order.
  A database maps the names of the tables that exist to the tables.
\<close>

datatype sqlval = SNull | SInteger int | SReal pyfloat | SText string

type_synonym row = "(string \<times> sqlval) list"

record table =
  columns :: "string list"
  uniques :: "string list list"
  rows :: "row list"

type_synonym database = "string \<Rightarrow> table option"

subsection \<open>Statements that create tables and indexes\<close>

text \<open>
  \<open>cursor.execute(sql)\<close> first parses the text; a text that is not a statement of the
  SQL grammar raises \<open>sqlite3.OperationalError\<close>. The model reads the two statement forms
  that \<open>_create_tables\<close> uses,
  \<^verbatim>\<open>CREATE TABLE IF NOT EXISTS name ( column-or-constraint , ... )\<close> and
  \<^verbatim>\<open>CREATE INDEX IF NOT EXISTS name ON table ( column , ... )\<close>,
  with keywords in any letter case. From a column definition it keeps the column name and
  whether \<open>UNIQUE\<close> occurs in it; from a table constraint \<open>UNIQUE(a, b)\<close> the column
  names.
\<close>

definition is_ident_char :: "char \<Rightarrow> bool" where
  "is_ident_char c =
     (c \<in> set ''abcdefghijklmnopqrstuvwxyzABCDEFGHIJKLMNOPQRSTUVWXYZ0123456789_'')"

text \<open>Tokens: maximal runs of identifier characters, and every other character that is
  not white space on its own. The first argument is the run being read, reversed.\<close>

fun tokens :: "string \<Rightarrow> string \<Rightarrow> string list" where
  "tokens w [] = (if w = [] then [] else [rev w])"
| "tokens w (c # cs) =
     (if is_ident_char c then tokens (c # w) cs
      else (if w = [] then [] else [rev w])
           @ (if is_space c then [] else [[c]])
           @ tokens [] cs)"

definition keyword :: "string \<Rightarrow> string \<Rightarrow> bool" where
  "keyword k t = (map upper_char t = k)"

definition is_name :: "string \<Rightarrow> bool" where
  "is_name t =
     (case t of [] \<Rightarrow> False | c # cs \<Rightarrow> is_ident_char c \<and> \<not> is_digit c \<and> list_all is_ident_char cs)"

text \<open>The tokens between an opening parenthesis and the closing one that matches it,
  which has to be the last token. The first argument counts the open parentheses.\<close>

fun until_close :: "nat \<Rightarrow> string list \<Rightarrow> string list option" where
  "until_close depth [] = None"
| "until_close depth (t # ts) =
     (if t = ''('' then map_option ((#) t) (until_close (Suc depth) ts)
      else if t = '')'' then
        (case depth of
           0 \<Rightarrow> (if ts = [] then Some [] else None)
         | Suc d \<Rightarrow> map_option ((#) t) (until_close d ts))
      else map_option ((#) t) (until_close depth ts))"

definition paren_body :: "string list \<Rightarrow> string list option" where
  "paren_body ts =
     (case ts of
        [] \<Rightarrow> None
      | t # rest \<Rightarrow> if t = ''('' then until_close 0 rest else None)"

text \<open>The items between the commas that are not inside parentheses. The second
  argument is the item being read, reversed.\<close>

fun split_items :: "nat \<Rightarrow> string list \<Rightarrow> string list \<Rightarrow> string list list" where
  "split_items depth item [] = [rev item]"
| "split_items depth item (t # ts) =
     (if t = '','' \<and> depth = 0 then rev item # split_items depth [] ts
      else if t = ''('' then split_items (Suc depth) (t # item) ts
      else if t = '')'' then split_items (depth - 1) (t # item) ts
      else split_items depth (t # item) ts)"

text \<open>A list of names separated by commas.\<close>

definition name_list :: "string list \<Rightarrow> string list option" where
  "name_list ts =
     (let items = split_items 0 [] ts in
      if list_all (\<lambda>item. length item = 1 \<and> is_name (hd item)) items
      then Some (map hd items) else None)"

datatype table_item = Column string bool | UniqueConstraint "string list"

definition parse_item :: "string list \<Rightarrow> table_item option" where
  "parse_item ts =
     (case ts of
        [] \<Rightarrow> None
      | t # rest \<Rightarrow>
          if keyword ''UNIQUE'' t then
            (case paren_body rest of
               None \<Rightarrow> None
             | Some inner \<Rightarrow> map_option UniqueConstraint (name_list inner))
          else if is_name t then Some (Column t (list_ex (keyword ''UNIQUE'') rest))
          else None)"

datatype statement =
    CreateTable string "table_item list"
  | CreateIndex string string "string list"

definition parse_statement :: "string list \<Rightarrow> statement option" where
  "parse_statement ts =
     (case ts of
        c # k # i # n # e # name # rest \<Rightarrow>
          if keyword ''CREATE'' c \<and> keyword ''IF'' i \<and> keyword ''NOT'' n
             \<and> keyword ''EXISTS'' e \<and> is_name name
          then
            if keyword ''TABLE'' k then
              (case paren_body rest of
                 None \<Rightarrow> None
               | Some inner \<Rightarrow>
                   (let items = map parse_item (split_items 0 [] inner) in
                    if list_all (\<lambda>it. it \<noteq> None) items
                    then Some (CreateTable name (map the items)) else None))
            else if keyword ''INDEX'' k then
              (case rest of
                 on # tbl # cols \<Rightarrow>
                   if keyword ''ON'' on \<and> is_name tbl then
                     (case paren_body cols of
                        None \<Rightarrow> None
                      | Some inner \<Rightarrow> map_option (CreateIndex name tbl) (name_list inner))
                   else None
               | _ \<Rightarrow> None)
            else None
          else None
      | _ \<Rightarrow> None)"

fun item_columns :: "table_item \<Rightarrow> string list" where
  "item_columns (Column c u) = [c]"
| "item_columns (UniqueConstraint cs) = []"

fun item_uniques :: "table_item \<Rightarrow> string list list" where
  "item_uniques (Column c u) = (if u then [[c]] else [])"
| "item_uniques (UniqueConstraint cs) = [cs]"

text \<open>Running a parsed statement. With \<open>IF NOT EXISTS\<close> an existing table is left as
  it is. An index needs its table and the table's columns; it changes no row.\<close>

fun run_statement :: "database \<Rightarrow> statement \<Rightarrow> error + database" where
  "run_statement db (CreateTable name items) =
     (case db name of
        Some t \<Rightarrow> Inr db
      | None \<Rightarrow>
          Inr (db(name \<mapsto> \<lparr>columns = concat (map item_columns items),
                             uniques = concat (map item_uniques items),
                             rows = []\<rparr>)))"
| "run_statement db (CreateIndex name tbl cols) =
     (case db tbl of
        None \<Rightarrow> Inl (OperationalError (''no such table: main.'' @ tbl))
      | Some t \<Rightarrow>
          (case filter (\<lambda>c. c \<notin> set (columns t)) cols of
             [] \<Rightarrow> Inr db
           | c # _ \<Rightarrow> Inl (OperationalError (''no such column: '' @ c))))"

definition execute_ddl :: "database \<Rightarrow> string \<Rightarrow> error + database" where
  "execute_ddl db sql =
     (case parse_statement (tokens [] sql) of
        None \<Rightarrow> Inl (OperationalError ''syntax error'')
      | Some st \<Rightarrow> run_statement db st)"

text \<open>A statement written over several lines: the lines, each ended by a newline
  (their indentation in the source is left out).\<close>

definition sql_text :: "string list \<Rightarrow> string" where
  "sql_text ls = concat (map (\<lambda>l. l @ [CHR 0x0A]) ls)"

text \<open>The statements of \<open>UBIKAISDatabase._create_tables\<close> that create the tables.\<close>

definition create_notam_fir_sql :: string where
  "create_notam_fir_sql = sql_text
     [''CREATE TABLE IF NOT EXISTS notam_fir ('',
      ''id INTEGER PRIMARY KEY AUTOINCREMENT,'',
      ''notam_id TEXT UNIQUE,'',
      ''series TEXT,'',
      ''number TEXT,'',
      ''year TEXT,'',
      ''type TEXT,'',
      ''fir TEXT,'',
      ''q_code TEXT,'',
      ''traffic TEXT,'',
      ''purpose TEXT,'',
      ''scope TEXT,'',
      ''lower_limit TEXT,'',
      ''upper_limit TEXT,'',
      ''coordinates TEXT,'',
      ''radius TEXT,'',
      ''location TEXT,'',
      ''valid_from TEXT,'',
      ''valid_to TEXT,'',
      ''schedule TEXT,'',
      ''full_text TEXT,'',
      ''raw_data TEXT,'',
      ''created_at TEXT DEFAULT CURRENT_TIMESTAMP,'',
      ''updated_at TEXT DEFAULT CURRENT_TIMESTAMP'',
      '')'']"

definition create_notam_ad_sql :: string where
  "create_notam_ad_sql = sql_text
     [''CREATE TABLE IF NOT EXISTS notam_ad ('',
      ''id INTEGER PRIMARY KEY AUTOINCREMENT,'',
      ''notam_id TEXT,'',
      ''airport_icao TEXT,'',
      ''series TEXT,'',
      ''number TEXT,'',
      ''year TEXT,'',
      ''type TEXT,'',
      ''q_code TEXT,'',
      ''traffic TEXT,'',
      ''purpose TEXT,'',
      ''scope TEXT,'',
      ''lower_limit TEXT,'',
      ''upper_limit TEXT,'',
      ''coordinates TEXT,'',
      ''radius TEXT,'',
      ''valid_from TEXT,'',
      ''valid_to TEXT,'',
      ''schedule TEXT,'',
      ''full_text TEXT,'',
      ''raw_data TEXT,'',
      ''created_at TEXT DEFAULT CURRENT_TIMESTAMP,'',
      ''updated_at TEXT DEFAULT CURRENT_TIMESTAMP,'',
      ''UNIQUE(notam_id, airport_icao)'',
      '')'']"

definition create_snowtam_sql :: string where
  "create_snowtam_sql = sql_text
     [''CREATE TABLE IF NOT EXISTS snowtam ('',
      ''id INTEGER PRIMARY KEY AUTOINCREMENT,'',
      ''snowtam_id TEXT UNIQUE,'',
      ''airport_icao TEXT,'',
      ''observation_time TEXT,'',
      ''runway TEXT,'',
      ''deposit_type TEXT,'',
      ''extent TEXT,'',
      ''depth TEXT,'',
      ''friction TEXT,'',
      ''contamination TEXT,'',
      ''full_text TEXT,'',
      ''raw_data TEXT,'',
      ''created_at TEXT DEFAULT CURRENT_TIMESTAMP,'',
      ''updated_at TEXT DEFAULT CURRENT_TIMESTAMP'',
      '')'']"

definition create_prohibited_area_sql :: string where
  "create_prohibited_area_sql = sql_text
     [''CREATE TABLE IF NOT EXISTS prohibited_area ('',
      ''id INTEGER PRIMARY KEY AUTOINCREMENT,'',
      ''notam_id TEXT UNIQUE,'',
      ''area_name TEXT,'',
      ''area_type TEXT,'',
      ''coordinates TEXT,'',
      ''lower_limit TEXT,'',
      ''upper_limit TEXT,'',
      ''valid_from TEXT,'',
      ''valid_to TEXT,'',
      ''remarks TEXT,'',
      ''full_text TEXT,'',
      ''raw_data TEXT,'',
      ''created_at TEXT DEFAULT CURRENT_TIMESTAMP,'',
      ''updated_at TEXT DEFAULT CURRENT_TIMESTAMP'',
      '')'']"

definition create_airports_sql :: string where
  "create_airports_sql = sql_text
     [''CREATE TABLE IF NOT EXISTS airports ('',
      ''id INTEGER PRIMARY KEY AUTOINCREMENT,'',
      ''icao_code TEXT UNIQUE,'',
      ''iata_code TEXT,'',
      ''name TEXT,'',
      ''name_korean TEXT,'',
      ''city TEXT,'',
      ''usage_type TEXT,'',
      ''magnetic_variation TEXT,'',
      ''magnetic_variation_year TEXT,'',
      ''elevation_m REAL,'',
      ''elevation_ft REAL,'',
      ''geoid_undulation REAL,'',
      ''latitude TEXT,'',
      ''longitude TEXT,'',
      ''latitude_decimal REAL,'',
      ''longitude_decimal REAL,'',
      ''tower_elevation_m REAL,'',
      ''verification_date TEXT,'',
      ''raw_data TEXT,'',
      ''created_at TEXT DEFAULT CURRENT_TIMESTAMP,'',
      ''updated_at TEXT DEFAULT CURRENT_TIMESTAMP'',
      '')'']"

definition create_runways_sql :: string where
  "create_runways_sql = sql_text
     [''CREATE TABLE IF NOT EXISTS runways ('',
      ''id INTEGER PRIMARY KEY AUTOINCREMENT,'',
      ''airport_icao TEXT,'',
      ''runway_id TEXT,'',
      ''direction TEXT,'',
      ''length_m REAL,'',
      ''width_m REAL,'',
      ''surface TEXT,'',
      ''strength TEXT,'',
      ''threshold_latitude TEXT,'',
      ''threshold_longitude TEXT,'',
      ''threshold_elevation_m REAL,'',
      ''displaced_threshold_m REAL,'',
      ''stopway_m REAL,'',
      ''clearway_m REAL,'',
      ''tora_m REAL,'',
      ''toda_m REAL,'',
      ''asda_m REAL,'',
      ''lda_m REAL,'',
      ''slope_percent REAL,'',
      ''lighting TEXT,'',
      ''raw_data TEXT,'',
      ''created_at TEXT DEFAULT CURRENT_TIMESTAMP,'',
      ''updated_at TEXT DEFAULT CURRENT_TIMESTAMP,'',
      ''UNIQUE(airport_icao, runway_id, direction)'',
      '')'']"

definition create_aprons_sql :: string where
  "create_aprons_sql = sql_text
     [''CREATE TABLE IF NOT EXISTS aprons ('',
      ''id INTEGER PRIMARY KEY AUTOINCREMENT,'',
      ''airport_icao TEXT,'',
      ''apron_name TEXT,'',
      ''apron_type TEXT,'',
      ''surface TEXT,'',
      ''strength TEXT,'',
      ''area_sqm REAL,'',
      ''max_aircraft_size TEXT,'',
      ''stands_count INTEGER,'',
      ''latitude TEXT,'',
      ''longitude TEXT,'',
      ''raw_data TEXT,'',
      ''created_at TEXT DEFAULT CURRENT_TIMESTAMP,'',
      ''updated_at TEXT DEFAULT CURRENT_TIMESTAMP,'',
      ''UNIQUE(airport_icao, apron_name)'',
      '')'']"

definition create_navaids_sql :: string where
  "create_navaids_sql = sql_text
     [''CREATE TABLE IF NOT EXISTS navaids ('',
      ''id INTEGER PRIMARY KEY AUTOINCREMENT,'',
      ''navaid_id TEXT UNIQUE,'',
      ''navaid_type TEXT,'',
      ''name TEXT,'',
      ''frequency TEXT,'',
      ''channel TEXT,'',
      ''latitude TEXT,'',
      ''longitude TEXT,'',
      ''latitude_decimal REAL,'',
      ''longitude_decimal REAL,'',
      ''elevation_m REAL,'',
      ''magnetic_variation TEXT,'',
      ''range_nm REAL,'',
      ''airport_icao TEXT,'',
      ''remarks TEXT,'',
      ''raw_data TEXT,'',
      ''created_at TEXT DEFAULT CURRENT_TIMESTAMP,'',
      ''updated_at TEXT DEFAULT CURRENT_TIMESTAMP'',
      '')'']"

definition create_obstacles_sql :: string where
  "create_obstacles_sql = sql_text
     [''CREATE TABLE IF NOT EXISTS obstacles ('',
      ''id INTEGER PRIMARY KEY AUTOINCREMENT,'',
      ''obstacle_id TEXT UNIQUE,'',
      ''obstacle_type TEXT,'',
      ''name TEXT,'',
      ''latitude TEXT,'',
      ''longitude TEXT,'',
      ''latitude_decimal REAL,'',
      ''longitude_decimal REAL,'',
      ''elevation_m REAL,'',
      ''height_m REAL,'',
      ''lighting TEXT,'',
      ''marking TEXT,'',
      ''airport_icao TEXT,'',
      ''area_affected TEXT,'',
      ''remarks TEXT,'',
      ''raw_data TEXT,'',
      ''created_at TEXT DEFAULT CURRENT_TIMESTAMP,'',
      ''updated_at TEXT DEFAULT CURRENT_TIMESTAMP'',
      '')'']"

definition create_flight_plans_sql :: string where
  "create_flight_plans_sql = sql_text
     [''CREATE TABLE IF NOT EXISTS flight_plans ('',
      ''id INTEGER PRIMARY KEY AUTOINCREMENT,'',
      ''callsign TEXT,'',
      ''flight_number TEXT,'',
      ''aircraft_type TEXT,'',
      ''registration TEXT,'',
      ''departure_icao TEXT,'',
      ''arrival_icao TEXT,'',
      ''alternate_icao TEXT,'',
      ''departure_time TEXT,'',
      ''arrival_time TEXT,'',
      ''eobt TEXT,'',
      ''atd TEXT,'',
      ''eta TEXT,'',
      ''ata TEXT,'',
      ''flight_rules TEXT,'',
      ''flight_type TEXT,'',
      ''route TEXT,'',
      ''cruise_altitude TEXT,'',
      ''cruise_speed TEXT,'',
      ''endurance TEXT,'',
      ''persons_on_board INTEGER,'',
      ''remarks TEXT,'',
      ''status TEXT,'',
      ''direction TEXT,'',
      ''crawled_date TEXT,'',
      ''raw_data TEXT,'',
      ''created_at TEXT DEFAULT CURRENT_TIMESTAMP,'',
      ''updated_at TEXT DEFAULT CURRENT_TIMESTAMP,'',
      ''UNIQUE(callsign, departure_time, crawled_date)'',
      '')'']"

definition create_metar_sql :: string where
  "create_metar_sql = sql_text
     [''CREATE TABLE IF NOT EXISTS metar ('',
      ''id INTEGER PRIMARY KEY AUTOINCREMENT,'',
      ''airport_icao TEXT,'',
      ''observation_time TEXT,'',
      ''raw_metar TEXT,'',
      ''wind_direction INTEGER,'',
      ''wind_speed INTEGER,'',
      ''wind_gust INTEGER,'',
      ''visibility_m INTEGER,'',
      ''weather TEXT,'',
      ''clouds TEXT,'',
      ''temperature INTEGER,'',
      ''dewpoint INTEGER,'',
      ''pressure_hpa INTEGER,'',
      ''remarks TEXT,'',
      ''created_at TEXT DEFAULT CURRENT_TIMESTAMP,'',
      ''UNIQUE(airport_icao, observation_time)'',
      '')'']"

definition create_taf_sql :: string where
  "create_taf_sql = sql_text
     [''CREATE TABLE IF NOT EXISTS taf ('',
      ''id INTEGER PRIMARY KEY AUTOINCREMENT,'',
      ''airport_icao TEXT,'',
      ''issue_time TEXT,'',
      ''valid_from TEXT,'',
      ''valid_to TEXT,'',
      ''raw_taf TEXT,'',
      ''created_at TEXT DEFAULT CURRENT_TIMESTAMP,'',
      ''UNIQUE(airport_icao, issue_time)'',
      '')'']"

definition create_sigmet_sql :: string where
  "create_sigmet_sql = sql_text
     [''CREATE TABLE IF NOT EXISTS sigmet ('',
      ''id INTEGER PRIMARY KEY AUTOINCREMENT,'',
      ''sigmet_id TEXT UNIQUE,'',
      ''fir TEXT,'',
      ''phenomenon TEXT,'',
      ''valid_from TEXT,'',
      ''valid_to TEXT,'',
      ''area TEXT,'',
      ''level TEXT,'',
      ''movement TEXT,'',
      ''intensity TEXT,'',
      ''raw_sigmet TEXT,'',
      ''created_at TEXT DEFAULT CURRENT_TIMESTAMP'',
      '')'']"

text \<open>The statements in the order in which \<open>_create_tables\<close> executes them:
  thirteen tables, then six indexes.\<close>

definition create_tables_sql :: "string list" where
  "create_tables_sql =
     [create_notam_fir_sql,
      create_notam_ad_sql,
      create_snowtam_sql,
      create_prohibited_area_sql,
      create_airports_sql,
      create_runways_sql,
      create_aprons_sql,
      create_navaids_sql,
      create_obstacles_sql,
      create_flight_plans_sql,
      create_metar_sql,
      create_taf_sql,
      create_sigmet_sql,
      ''CREATE INDEX IF NOT EXISTS idx_notam_fir_valid FROM notam_fir(valid_from)'',
      ''CREATE INDEX IF NOT EXISTS idx_notam_ad_airport ON notam_ad(airport_icao)'',
      ''CREATE INDEX IF NOT EXISTS idx_runways_airport ON runways(airport_icao)'',
      ''CREATE INDEX IF NOT EXISTS idx_navaids_airport ON navaids(airport_icao)'',
      ''CREATE INDEX IF NOT EXISTS idx_flight_plans_date ON flight_plans(crawled_date)'',
      ''CREATE INDEX IF NOT EXISTS idx_metar_airport ON metar(airport_icao)'']"

text \<open>What a statement declares, when it creates a table: the name, the columns and the
  \<open>UNIQUE\<close> constraints.\<close>

definition declared_schema :: "string \<Rightarrow> (string \<times> string list \<times> string list list) option"
  where
  "declared_schema sql =
     (case parse_statement (tokens [] sql) of
        Some (CreateTable name items) \<Rightarrow>
          Some (name, concat (map item_columns items), concat (map item_uniques items))
      | _ \<Rightarrow> None)"

text \<open>Executing the statements one after the other; the first exception ends the
  sequence, since nothing in \<open>_create_tables\<close> catches it.\<close>

fun execute_all :: "database \<Rightarrow> string list \<Rightarrow> error + database" where
  "execute_all db [] = Inr db"
| "execute_all db (sql # rest) =
     (case execute_ddl db sql of
        Inl e \<Rightarrow> Inl e
      | Inr db' \<Rightarrow> execute_all db' rest)"

definition create_tables :: "database \<Rightarrow> error + database" where
  "create_tables db = execute_all db create_tables_sql"

text \<open>
  What the operating system and \<open>sqlite3.connect\<close> answer is given from outside:
  whether creating a directory fails, and the database (or the exception) that opening a
  path gives. \<open>os.makedirs\<close> of the empty path raises \<open>FileNotFoundError\<close>.
\<close>

record environment =
  makedirs_result :: "string \<Rightarrow> error option"
  connect_result :: "string \<Rightarrow> error + database"

text \<open>\<open>os.path.dirname\<close> for POSIX paths: the text before the last slash, without its
  trailing slashes unless it consists of slashes only.\<close>

definition dirname :: "string \<Rightarrow> string" where
  "dirname p =
     (let head = rev (dropWhile (\<lambda>c. c \<noteq> CHR ''/'') (rev p)) in
      if head \<noteq> [] \<and> \<not> list_all (\<lambda>c. c = CHR ''/'') head
      then rev (dropWhile (\<lambda>c. c = CHR ''/'') (rev head))
      else head)"

definition makedirs :: "environment \<Rightarrow> string \<Rightarrow> error option" where
  "makedirs env d = (if d = [] then Some FileNotFoundError else makedirs_result env d)"

definition init_database :: "environment \<Rightarrow> string \<Rightarrow> error + database" where
  "init_database env db_path =
     (case connect_result env db_path of
        Inl e \<Rightarrow> Inl e
      | Inr conn \<Rightarrow> create_tables conn)"

text \<open>\<open>UBIKAISDatabase.__init__\<close>: the store, or the exception that leaves the
  constructor.\<close>

definition UBIKAISDatabase_init :: "environment \<Rightarrow> string \<Rightarrow> error + database" where
  "UBIKAISDatabase_init env db_path =
     (case makedirs env (dirname db_path) of
        Some e \<Rightarrow> Inl e
      | None \<Rightarrow> init_database env db_path)"

subsection \<open>Inserting rows\<close>

text \<open>
  What the running program supplies besides its arguments: the text that
  \<open>json.dumps(x, ensure_ascii=False)\<close> gives for a value, the text of
  \<open>datetime.now().isoformat()\<close> and the date \<open>datetime.now().strftime("%Y-%m-%d")\<close>.
  One call of a save function reads one clock value.
\<close>

record runtime =
  json_dumps :: "pyval \<Rightarrow> string"
  now_isoformat :: string
  today :: string

text \<open>
  Binding a Python value to a \<open>?\<close> of a statement: \<open>None\<close>, integers that fit in
  64 bits (booleans are integers), floats and strings are accepted; a larger integer raises
  \<open>OverflowError\<close>, a list or a dictionary raises an error of the \<open>sqlite3\<close>
  module. SQLite stores a NaN as \<open>NULL\<close>.
\<close>

fun bind_param :: "pyval \<Rightarrow> error + sqlval" where
  "bind_param PNone = Inr SNull"
| "bind_param (PBool b) = Inr (SInteger (if b then 1 else 0))"
| "bind_param (PInt i) =
     (if - (2 ^ 63) \<le> i \<and> i < 2 ^ 63 then Inr (SInteger i) else Inl OverflowError)"
| "bind_param (PFloat f) = (if f = NaN then Inr SNull else Inr (SReal f))"
| "bind_param (PStr s) = Inr (SText s)"
| "bind_param (PList xs) = Inl InterfaceError"
| "bind_param (PDict kvs) = Inl InterfaceError"

fun bind_params :: "pyval list \<Rightarrow> error + sqlval list" where
  "bind_params [] = Inr []"
| "bind_params (p # ps) =
     (case bind_param p of
        Inl e \<Rightarrow> Inl e
      | Inr v \<Rightarrow> (case bind_params ps of Inl e \<Rightarrow> Inl e | Inr vs \<Rightarrow> Inr (v # vs)))"

text \<open>The value of a column in a row; a column that the row does not give is \<open>NULL\<close>.\<close>

definition col :: "row \<Rightarrow> string \<Rightarrow> sqlval" where
  "col r c = (case map_of r c of None \<Rightarrow> SNull | Some v \<Rightarrow> v)"

text \<open>
  Two rows collide on a \<open>UNIQUE\<close> constraint when they agree on each of its columns
  and none of these values is \<open>NULL\<close> (SQLite takes \<open>NULL\<close>s as distinct from each
  other).
\<close>

definition same_key :: "string list \<Rightarrow> row \<Rightarrow> row \<Rightarrow> bool" where
  "same_key u new old = list_all (\<lambda>c. col new c \<noteq> SNull \<and> col old c = col new c) u"

definition conflicts :: "table \<Rightarrow> row \<Rightarrow> row \<Rightarrow> bool" where
  "conflicts t new old = list_ex (\<lambda>u. same_key u new old) (uniques t)"

text \<open>
  \<^verbatim>\<open>INSERT OR REPLACE INTO tbl (cols) VALUES (?, ...)\<close> with its parameters: the
  statement is prepared (the table and the columns have to exist), the parameters are
  bound, the rows that collide with the new row are deleted, and the new row is added.
\<close>

definition insert_or_replace ::
  "database \<Rightarrow> string \<Rightarrow> string list \<Rightarrow> pyval list \<Rightarrow> error + database" where
  "insert_or_replace db tbl cols params =
     (case db tbl of
        None \<Rightarrow> Inl (OperationalError (''no such table: '' @ tbl))
      | Some t \<Rightarrow>
          (case filter (\<lambda>c. c \<notin> set (columns t)) cols of
             c # _ \<Rightarrow> Inl (OperationalError (''table '' @ tbl @ '' has no column named '' @ c))
           | [] \<Rightarrow>
               (case bind_params params of
                  Inl e \<Rightarrow> Inl e
                | Inr vals \<Rightarrow>
                    (let new = zip cols vals in
                     Inr (db(tbl \<mapsto>
                            t\<lparr>rows := filter (\<lambda>old. \<not> conflicts t new old) (rows t)
                                         @ [new]\<rparr>))))))"

text \<open>\<open>self._parse_coordinate(x)\<close> for any value \<open>x\<close>: a value that is not a
  string is either false, or makes the body raise, which the bare \<open>except\<close> catches.\<close>

definition parse_coordinate_val :: "pyval \<Rightarrow> pyval" where
  "parse_coordinate_val v =
     (case v of
        PStr s \<Rightarrow> (case parse_coordinate s of Inr (Some f) \<Rightarrow> PFloat f | _ \<Rightarrow> PNone)
      | _ \<Rightarrow> PNone)"

subsection \<open>The batch save functions\<close>

text \<open>
  The loop that \<open>save_notam_fir\<close>, \<open>save_notam_ad\<close> and \<open>save_snowtam\<close> share:
  \<^verbatim>\<open>for x in xs: try: <body>; count += 1  except Exception: warn\<close>. The body
  gives \<open>Inr None\<close> for \<open>continue\<close>, \<open>Inr (Some db')\<close> when its statement was
  executed, and \<open>Inl e\<close> when it raised; the handler catches that, and the loop goes on.
\<close>

fun save_loop ::
  "(database \<Rightarrow> pyval \<Rightarrow> error + database option) \<Rightarrow> database \<Rightarrow> nat \<Rightarrow> pyval list
     \<Rightarrow> database \<times> nat" where
  "save_loop body db count [] = (db, count)"
| "save_loop body db count (x # xs) =
     (case body db x of
        Inr (Some db') \<Rightarrow> save_loop body db' (count + 1) xs
      | Inr None \<Rightarrow> save_loop body db count xs
      | Inl e \<Rightarrow> save_loop body db count xs)"

type_synonym pydict = "(string \<times> pyval) list"

text \<open>\<open>save_notam_fir\<close>. A list element that is not a dictionary has no \<open>get\<close>:
  \<open>AttributeError\<close>, caught like any other exception of the body.\<close>

definition notam_fir_notam_id :: "pydict \<Rightarrow> pyval" where
  "notam_fir_notam_id d =
     por (por (dict_get d ''notamId'') (dict_get d ''notamNo'')) (dict_get d ''id'')"

definition notam_fir_columns :: "string list" where
  "notam_fir_columns =
     [''notam_id'', ''series'', ''number'', ''year'', ''type'', ''fir'', ''q_code'',
      ''traffic'', ''purpose'', ''scope'', ''lower_limit'', ''upper_limit'',
      ''coordinates'', ''radius'', ''location'', ''valid_from'', ''valid_to'',
      ''schedule'', ''full_text'', ''raw_data'', ''updated_at'']"

definition notam_fir_params :: "runtime \<Rightarrow> pydict \<Rightarrow> pyval list" where
  "notam_fir_params rt d =
     [notam_fir_notam_id d,
      dict_get d ''series'',
      dict_get d ''number'',
      dict_get d ''year'',
      por (dict_get d ''type'') (dict_get d ''notamType''),
      por (dict_get d ''fir'') (PStr ''RKRR''),
      dict_get d ''qCode'',
      dict_get d ''traffic'',
      dict_get d ''purpose'',
      dict_get d ''scope'',
      por (dict_get d ''lowerLimit'') (dict_get d ''flLower''),
      por (dict_get d ''upperLimit'') (dict_get d ''flUpper''),
      por (dict_get d ''coordinates'') (dict_get d ''coord''),
      dict_get d ''radius'',
      por (dict_get d ''location'') (dict_get d ''ad''),
      por (dict_get d ''validFrom'') (dict_get d ''fromDt''),
      por (dict_get d ''validTo'') (dict_get d ''toDt''),
      dict_get d ''schedule'',
      por (por (dict_get d ''fullText'') (dict_get d ''notamText'')) (dict_get d ''eText''),
      PStr (json_dumps rt (PDict d)),
      PStr (now_isoformat rt)]"

definition save_notam_fir_row ::
  "runtime \<Rightarrow> database \<Rightarrow> pyval \<Rightarrow> error + database option" where
  "save_notam_fir_row rt db x =
     (case x of
        PDict d \<Rightarrow>
          if \<not> truthy (notam_fir_notam_id d) then Inr None
          else (case insert_or_replace db ''notam_fir'' notam_fir_columns (notam_fir_params rt d) of
                  Inl e \<Rightarrow> Inl e
                | Inr db' \<Rightarrow> Inr (Some db'))
      | _ \<Rightarrow> Inl AttributeError)"

definition save_notam_fir ::
  "runtime \<Rightarrow> database \<Rightarrow> pyval list \<Rightarrow> database \<times> nat" where
  "save_notam_fir rt db notam_list =
     (if notam_list = [] then (db, 0)
      else save_loop (save_notam_fir_row rt) db 0 notam_list)"

text \<open>\<open>save_notam_ad\<close>, with its optional argument \<open>airport_icao\<close> (\<open>None\<close> when
  left out). Only the NOTAM id decides whether the record is skipped.\<close>

definition notam_ad_notam_id :: "pydict \<Rightarrow> pyval" where
  "notam_ad_notam_id d =
     por (por (dict_get d ''notamId'') (dict_get d ''notamNo'')) (dict_get d ''id'')"

definition notam_ad_columns :: "string list" where
  "notam_ad_columns =
     [''notam_id'', ''airport_icao'', ''series'', ''number'', ''year'', ''type'',
      ''q_code'', ''traffic'', ''purpose'', ''scope'', ''lower_limit'',
      ''upper_limit'', ''coordinates'', ''radius'', ''valid_from'', ''valid_to'',
      ''schedule'', ''full_text'', ''raw_data'', ''updated_at'']"

definition notam_ad_params :: "runtime \<Rightarrow> pyval \<Rightarrow> pydict \<Rightarrow> pyval list" where
  "notam_ad_params rt airport_icao d =
     (let icao =
     por (por airport_icao (dict_get d ''ad'')) (dict_get d ''airport'')
      in
     [notam_ad_notam_id d,
      icao,
      dict_get d ''series'',
      dict_get d ''number'',
      dict_get d ''year'',
      por (dict_get d ''type'') (dict_get d ''notamType''),
      dict_get d ''qCode'',
      dict_get d ''traffic'',
      dict_get d ''purpose'',
      dict_get d ''scope'',
      por (dict_get d ''lowerLimit'') (dict_get d ''flLower''),
      por (dict_get d ''upperLimit'') (dict_get d ''flUpper''),
      por (dict_get d ''coordinates'') (dict_get d ''coord''),
      dict_get d ''radius'',
      por (dict_get d ''validFrom'') (dict_get d ''fromDt''),
      por (dict_get d ''validTo'') (dict_get d ''toDt''),
      dict_get d ''schedule'',
      por (por (dict_get d ''fullText'') (dict_get d ''notamText'')) (dict_get d ''eText''),
      PStr (json_dumps rt (PDict d)),
      PStr (now_isoformat rt)])"

definition save_notam_ad_row ::
  "runtime \<Rightarrow> pyval \<Rightarrow> database \<Rightarrow> pyval \<Rightarrow> error + database option" where
  "save_notam_ad_row rt airport_icao db x =
     (case x of
        PDict d \<Rightarrow>
          if \<not> truthy (notam_ad_notam_id d) then Inr None
          else (case insert_or_replace db ''notam_ad'' notam_ad_columns
                       (notam_ad_params rt airport_icao d) of
                  Inl e \<Rightarrow> Inl e
                | Inr db' \<Rightarrow> Inr (Some db'))
      | _ \<Rightarrow> Inl AttributeError)"

definition save_notam_ad ::
  "runtime \<Rightarrow> database \<Rightarrow> pyval list \<Rightarrow> pyval \<Rightarrow> database \<times> nat" where
  "save_notam_ad rt db notam_list airport_icao =
     (if notam_list = [] then (db, 0)
      else save_loop (save_notam_ad_row rt airport_icao) db 0 notam_list)"

text \<open>\<open>save_snowtam\<close>.\<close>

definition snowtam_snowtam_id :: "pydict \<Rightarrow> pyval" where
  "snowtam_snowtam_id d = por (dict_get d ''snowtamId'') (dict_get d ''id'')"

definition snowtam_columns :: "string list" where
  "snowtam_columns =
     [''snowtam_id'', ''airport_icao'', ''observation_time'', ''runway'',
      ''deposit_type'', ''extent'', ''depth'', ''friction'', ''contamination'',
      ''full_text'', ''raw_data'', ''updated_at'']"

definition snowtam_params :: "runtime \<Rightarrow> pydict \<Rightarrow> pyval list" where
  "snowtam_params rt d =
     [snowtam_snowtam_id d,
      por (dict_get d ''ad'') (dict_get d ''airport''),
      dict_get d ''obsTime'',
      dict_get d ''runway'',
      dict_get d ''depositType'',
      dict_get d ''extent'',
      dict_get d ''depth'',
      dict_get d ''friction'',
      dict_get d ''contamination'',
      por (dict_get d ''fullText'') (dict_get d ''snowtamText''),
      PStr (json_dumps rt (PDict d)),
      PStr (now_isoformat rt)]"

definition save_snowtam_row ::
  "runtime \<Rightarrow> database \<Rightarrow> pyval \<Rightarrow> error + database option" where
  "save_snowtam_row rt db x =
     (case x of
        PDict d \<Rightarrow>
          if \<not> truthy (snowtam_snowtam_id d) then Inr None
          else (case insert_or_replace db ''snowtam'' snowtam_columns (snowtam_params rt d) of
                  Inl e \<Rightarrow> Inl e
                | Inr db' \<Rightarrow> Inr (Some db'))
      | _ \<Rightarrow> Inl AttributeError)"

definition save_snowtam ::
  "runtime \<Rightarrow> database \<Rightarrow> pyval list \<Rightarrow> database \<times> nat" where
  "save_snowtam rt db snowtam_list =
     (if snowtam_list = [] then (db, 0)
      else save_loop (save_snowtam_row rt) db 0 snowtam_list)"

subsection \<open>The save functions for one record\<close>

text \<open>
  Each of them builds the parameters and executes one statement inside \<open>try\<close>; it
  returns \<open>True\<close> after the statement, and \<open>False\<close> when anything raised (also
  when the argument is not a dictionary). None of them tests a key field.
\<close>

definition airport_columns :: "string list" where
  "airport_columns =
     [''icao_code'', ''iata_code'', ''name'', ''name_korean'', ''city'',
      ''usage_type'', ''magnetic_variation'', ''magnetic_variation_year'',
      ''elevation_m'', ''elevation_ft'', ''geoid_undulation'', ''latitude'',
      ''longitude'', ''latitude_decimal'', ''longitude_decimal'',
      ''tower_elevation_m'', ''verification_date'', ''raw_data'', ''updated_at'']"

definition airport_params :: "runtime \<Rightarrow> pydict \<Rightarrow> pyval list" where
  "airport_params rt d  =
     (let lat_str = por (dict_get d ''latitude'') (dict_get d ''lat'');
          lon_str = por (dict_get d ''longitude'') (dict_get d ''lon'');
          lat_dec = parse_coordinate_val lat_str;
          lon_dec = parse_coordinate_val lon_str
      in
     [por (dict_get d ''icao'') (dict_get d ''icaoCode''),
      dict_get d ''iata'',
      por (dict_get d ''name'') (dict_get d ''apName''),
      dict_get d ''nameKo'',
      por (dict_get d ''city'') (dict_get d ''cityName''),
      por (dict_get d ''usage'') (dict_get d ''usageType''),
      por (dict_get d ''magVar'') (dict_get d ''magneticVariation''),
      dict_get d ''magVarYear'',
      por (dict_get d ''elevation'') (dict_get d ''elevM''),
      dict_get d ''elevationFt'',
      dict_get d ''geoidUndulation'',
      lat_str,
      lon_str,
      lat_dec,
      lon_dec,
      dict_get d ''towerElev'',
      por (dict_get d ''verificationDate'') (dict_get d ''verDt''),
      PStr (json_dumps rt (PDict d)),
      PStr (now_isoformat rt)])"

definition save_airport ::
  "runtime \<Rightarrow> database \<Rightarrow> pyval \<Rightarrow> database \<times> bool" where
  "save_airport rt db airport_data =
     (case airport_data of
        PDict d \<Rightarrow>
          (case insert_or_replace db ''airports'' airport_columns (airport_params rt d) of
             Inl e \<Rightarrow> (db, False)
           | Inr db' \<Rightarrow> (db', True))
      | _ \<Rightarrow> (db, False))"

definition runway_columns :: "string list" where
  "runway_columns =
     [''airport_icao'', ''runway_id'', ''direction'', ''length_m'', ''width_m'',
      ''surface'', ''strength'', ''threshold_latitude'', ''threshold_longitude'',
      ''threshold_elevation_m'', ''displaced_threshold_m'', ''stopway_m'',
      ''clearway_m'', ''tora_m'', ''toda_m'', ''asda_m'', ''lda_m'',
      ''slope_percent'', ''lighting'', ''raw_data'', ''updated_at'']"

definition runway_params :: "runtime \<Rightarrow> pydict \<Rightarrow> pyval \<Rightarrow> pyval list" where
  "runway_params rt d airport_icao  =
     [airport_icao,
      por (dict_get d ''rwyId'') (dict_get d ''runwayId''),
      por (dict_get d ''direction'') (dict_get d ''rwyDir''),
      por (dict_get d ''length'') (dict_get d ''lengthM''),
      por (dict_get d ''width'') (dict_get d ''widthM''),
      por (dict_get d ''surface'') (dict_get d ''surfaceType''),
      por (dict_get d ''strength'') (dict_get d ''pcn''),
      dict_get d ''thrLat'',
      dict_get d ''thrLon'',
      dict_get d ''thrElev'',
      dict_get d ''displacedThr'',
      dict_get d ''stopway'',
      dict_get d ''clearway'',
      dict_get d ''tora'',
      dict_get d ''toda'',
      dict_get d ''asda'',
      dict_get d ''lda'',
      dict_get d ''slope'',
      dict_get d ''lighting'',
      PStr (json_dumps rt (PDict d)),
      PStr (now_isoformat rt)]"

definition save_runway ::
  "runtime \<Rightarrow> database \<Rightarrow> pyval \<Rightarrow> pyval \<Rightarrow> database \<times> bool" where
  "save_runway rt db runway_data airport_icao =
     (case runway_data of
        PDict d \<Rightarrow>
          (case insert_or_replace db ''runways'' runway_columns (runway_params rt d airport_icao) of
             Inl e \<Rightarrow> (db, False)
           | Inr db' \<Rightarrow> (db', True))
      | _ \<Rightarrow> (db, False))"

definition navaid_columns :: "string list" where
  "navaid_columns =
     [''navaid_id'', ''navaid_type'', ''name'', ''frequency'', ''channel'',
      ''latitude'', ''longitude'', ''latitude_decimal'', ''longitude_decimal'',
      ''elevation_m'', ''magnetic_variation'', ''range_nm'', ''airport_icao'',
      ''remarks'', ''raw_data'', ''updated_at'']"

definition navaid_params :: "runtime \<Rightarrow> pydict \<Rightarrow> pyval list" where
  "navaid_params rt d  =
     (let lat_str = por (dict_get d ''latitude'') (dict_get d ''lat'');
          lon_str = por (dict_get d ''longitude'') (dict_get d ''lon'')
      in
     [por (dict_get d ''navaidId'') (dict_get d ''id''),
      por (dict_get d ''type'') (dict_get d ''navaidType''),
      dict_get d ''name'',
      por (dict_get d ''frequency'') (dict_get d ''freq''),
      dict_get d ''channel'',
      lat_str,
      lon_str,
      parse_coordinate_val lat_str,
      parse_coordinate_val lon_str,
      por (dict_get d ''elevation'') (dict_get d ''elev''),
      dict_get d ''magVar'',
      dict_get d ''range'',
      por (dict_get d ''airport'') (dict_get d ''ad''),
      dict_get d ''remarks'',
      PStr (json_dumps rt (PDict d)),
      PStr (now_isoformat rt)])"

definition save_navaid ::
  "runtime \<Rightarrow> database \<Rightarrow> pyval \<Rightarrow> database \<times> bool" where
  "save_navaid rt db navaid_data =
     (case navaid_data of
        PDict d \<Rightarrow>
          (case insert_or_replace db ''navaids'' navaid_columns (navaid_params rt d) of
             Inl e \<Rightarrow> (db, False)
           | Inr db' \<Rightarrow> (db', True))
      | _ \<Rightarrow> (db, False))"

definition obstacle_columns :: "string list" where
  "obstacle_columns =
     [''obstacle_id'', ''obstacle_type'', ''name'', ''latitude'', ''longitude'',
      ''latitude_decimal'', ''longitude_decimal'', ''elevation_m'', ''height_m'',
      ''lighting'', ''marking'', ''airport_icao'', ''area_affected'', ''remarks'',
      ''raw_data'', ''updated_at'']"

definition obstacle_params :: "runtime \<Rightarrow> pydict \<Rightarrow> pyval list" where
  "obstacle_params rt d  =
     (let lat_str = por (dict_get d ''latitude'') (dict_get d ''lat'');
          lon_str = por (dict_get d ''longitude'') (dict_get d ''lon'')
      in
     [por (dict_get d ''obstId'') (dict_get d ''id''),
      por (dict_get d ''type'') (dict_get d ''obstType''),
      dict_get d ''name'',
      lat_str,
      lon_str,
      parse_coordinate_val lat_str,
      parse_coordinate_val lon_str,
      por (dict_get d ''elevation'') (dict_get d ''elev''),
      dict_get d ''height'',
      dict_get d ''lighting'',
      dict_get d ''marking'',
      por (dict_get d ''airport'') (dict_get d ''ad''),
      dict_get d ''areaAffected'',
      dict_get d ''remarks'',
      PStr (json_dumps rt (PDict d)),
      PStr (now_isoformat rt)])"

definition save_obstacle ::
  "runtime \<Rightarrow> database \<Rightarrow> pyval \<Rightarrow> database \<times> bool" where
  "save_obstacle rt db obstacle_data =
     (case obstacle_data of
        PDict d \<Rightarrow>
          (case insert_or_replace db ''obstacles'' obstacle_columns (obstacle_params rt d) of
             Inl e \<Rightarrow> (db, False)
           | Inr db' \<Rightarrow> (db', True))
      | _ \<Rightarrow> (db, False))"

definition flight_plan_columns :: "string list" where
  "flight_plan_columns =
     [''callsign'', ''flight_number'', ''aircraft_type'', ''registration'',
      ''departure_icao'', ''arrival_icao'', ''alternate_icao'', ''departure_time'',
      ''arrival_time'', ''eobt'', ''atd'', ''eta'', ''ata'', ''flight_rules'',
      ''flight_type'', ''route'', ''cruise_altitude'', ''cruise_speed'',
      ''endurance'', ''persons_on_board'', ''remarks'', ''status'', ''direction'',
      ''crawled_date'', ''raw_data'', ''updated_at'']"

definition flight_plan_params :: "runtime \<Rightarrow> pydict \<Rightarrow> pyval \<Rightarrow> pyval list" where
  "flight_plan_params rt d direction  =
     (let callsign =
     por (por (dict_get d ''callsign'') (dict_get d ''acid'')) (dict_get d ''fltNo'');
          dep_time =
     por (por (dict_get d ''eobt'') (dict_get d ''std'')) (dict_get d ''depTime'')
      in
     [callsign,
      por (dict_get d ''flightNumber'') (dict_get d ''fltNo''),
      por (dict_get d ''aircraftType'') (dict_get d ''acType''),
      por (dict_get d ''registration'') (dict_get d ''reg''),
      por (por (dict_get d ''departure'') (dict_get d ''depAd'')) (dict_get d ''adep''),
      por (por (dict_get d ''arrival'') (dict_get d ''arrAd'')) (dict_get d ''ades''),
      por (dict_get d ''alternate'') (dict_get d ''altnAd''),
      dep_time,
      por (dict_get d ''sta'') (dict_get d ''arrTime''),
      dict_get d ''eobt'',
      dict_get d ''atd'',
      dict_get d ''eta'',
      dict_get d ''ata'',
      por (dict_get d ''flightRules'') (dict_get d ''fltRules''),
      por (dict_get d ''flightType'') (dict_get d ''fltType''),
      dict_get d ''route'',
      por (dict_get d ''cruiseAlt'') (dict_get d ''rfl''),
      por (dict_get d ''cruiseSpeed'') (dict_get d ''speed''),
      por (dict_get d ''endurance'') (dict_get d ''eet''),
      dict_get d ''pob'',
      por (dict_get d ''remarks'') (dict_get d ''rmk''),
      dict_get d ''status'',
      direction,
      PStr (today rt),
      PStr (json_dumps rt (PDict d)),
      PStr (now_isoformat rt)])"

definition save_flight_plan ::
  "runtime \<Rightarrow> database \<Rightarrow> pyval \<Rightarrow> pyval \<Rightarrow> database \<times> bool" where
  "save_flight_plan rt db flight_plan_data direction =
     (case flight_plan_data of
        PDict d \<Rightarrow>
          (case insert_or_replace db ''flight_plans'' flight_plan_columns
                  (flight_plan_params rt d direction) of
             Inl e \<Rightarrow> (db, False)
           | Inr db' \<Rightarrow> (db', True))
      | _ \<Rightarrow> (db, False))"

definition metar_columns :: "string list" where
  "metar_columns =
     [''airport_icao'', ''observation_time'', ''raw_metar'', ''wind_direction'',
      ''wind_speed'', ''wind_gust'', ''visibility_m'', ''weather'', ''clouds'',
      ''temperature'', ''dewpoint'', ''pressure_hpa'', ''remarks'']"

definition metar_params :: "runtime \<Rightarrow> pydict \<Rightarrow> pyval list" where
  "metar_params rt d  =
     [por (dict_get d ''airport'') (dict_get d ''ad''),
      por (dict_get d ''obsTime'') (dict_get d ''time''),
      por (por (dict_get d ''rawMetar'') (dict_get d ''metar'')) (dict_get d ''orgMsg''),
      dict_get d ''windDir'',
      por (dict_get d ''windSpeed'') (dict_get d ''ws''),
      dict_get d ''windGust'',
      por (dict_get d ''visibility'') (dict_get d ''vis''),
      dict_get d ''weather'',
      dict_get d ''clouds'',
      por (dict_get d ''temperature'') (dict_get d ''temp''),
      por (dict_get d ''dewpoint'') (dict_get d ''dp''),
      por (dict_get d ''pressure'') (dict_get d ''qnh''),
      dict_get d ''remarks'']"

definition save_metar ::
  "runtime \<Rightarrow> database \<Rightarrow> pyval \<Rightarrow> database \<times> bool" where
  "save_metar rt db metar_data =
     (case metar_data of
        PDict d \<Rightarrow>
          (case insert_or_replace db ''metar'' metar_columns (metar_params rt d) of
             Inl e \<Rightarrow> (db, False)
           | Inr db' \<Rightarrow> (db', True))
      | _ \<Rightarrow> (db, False))"

subsection \<open>Notions for stating the properties of the save functions\<close>

text \<open>An outcome of a loop body counts as written when its statement was executed.\<close>

definition written :: "error + database option \<Rightarrow> bool" where
  "written r = (case r of Inr (Some db') \<Rightarrow> True | _ \<Rightarrow> False)"

text \<open>Two databases with the same tables, columns and constraints; the rows may differ.\<close>

definition same_schema :: "database \<Rightarrow> database \<Rightarrow> bool" where
  "same_schema db db' =
     (\<forall>tbl. map_option columns (db tbl) = map_option columns (db' tbl)
          \<and> map_option uniques (db tbl) = map_option uniques (db' tbl))"

subsection \<open>The entity types\<close>

text \<open>
  The nine save functions, named so that a statement can range over them. An entity
  that takes a further argument (\<open>airport_icao\<close>, \<open>direction\<close>) carries it. For a
  batch function, saving one record is the call with the list of that record, and
  success is the count 1.
\<close>

datatype entity =
    NotamFir | NotamAd pyval | Snowtam
  | Airport | Runway pyval | Navaid | Obstacle | FlightPlan pyval | Metar

fun save_entity :: "entity \<Rightarrow> runtime \<Rightarrow> database \<Rightarrow> pyval \<Rightarrow> database \<times> bool" where
  "save_entity NotamFir rt db x = (case save_notam_fir rt db [x] of (db', n) \<Rightarrow> (db', n = 1))"
| "save_entity (NotamAd airport_icao) rt db x =
     (case save_notam_ad rt db [x] airport_icao of (db', n) \<Rightarrow> (db', n = 1))"
| "save_entity Snowtam rt db x = (case save_snowtam rt db [x] of (db', n) \<Rightarrow> (db', n = 1))"
| "save_entity Airport rt db x = save_airport rt db x"
| "save_entity (Runway airport_icao) rt db x = save_runway rt db x airport_icao"
| "save_entity Navaid rt db x = save_navaid rt db x"
| "save_entity Obstacle rt db x = save_obstacle rt db x"
| "save_entity (FlightPlan direction) rt db x = save_flight_plan rt db x direction"
| "save_entity Metar rt db x = save_metar rt db x"

fun entity_table :: "entity \<Rightarrow> string" where
  "entity_table NotamFir = ''notam_fir''"
| "entity_table (NotamAd airport_icao) = ''notam_ad''"
| "entity_table Snowtam = ''snowtam''"
| "entity_table Airport = ''airports''"
| "entity_table (Runway airport_icao) = ''runways''"
| "entity_table Navaid = ''navaids''"
| "entity_table Obstacle = ''obstacles''"
| "entity_table (FlightPlan direction) = ''flight_plans''"
| "entity_table Metar = ''metar''"

fun entity_columns :: "entity \<Rightarrow> string list" where
  "entity_columns NotamFir = notam_fir_columns"
| "entity_columns (NotamAd airport_icao) = notam_ad_columns"
| "entity_columns Snowtam = snowtam_columns"
| "entity_columns Airport = airport_columns"
| "entity_columns (Runway airport_icao) = runway_columns"
| "entity_columns Navaid = navaid_columns"
| "entity_columns Obstacle = obstacle_columns"
| "entity_columns (FlightPlan direction) = flight_plan_columns"
| "entity_columns Metar = metar_columns"

fun entity_params :: "entity \<Rightarrow> runtime \<Rightarrow> pydict \<Rightarrow> pyval list" where
  "entity_params NotamFir rt d = notam_fir_params rt d"
| "entity_params (NotamAd airport_icao) rt d = notam_ad_params rt airport_icao d"
| "entity_params Snowtam rt d = snowtam_params rt d"
| "entity_params Airport rt d = airport_params rt d"
| "entity_params (Runway airport_icao) rt d = runway_params rt d airport_icao"
| "entity_params Navaid rt d = navaid_params rt d"
| "entity_params Obstacle rt d = obstacle_params rt d"
| "entity_params (FlightPlan direction) rt d = flight_plan_params rt d direction"
| "entity_params Metar rt d = metar_params rt d"

text \<open>The natural key of an entity: the columns of the \<open>UNIQUE\<close> constraint that
  \<open>_create_tables\<close> declares for its table.\<close>

fun entity_key :: "entity \<Rightarrow> string list" where
  "entity_key NotamFir = [''notam_id'']"
| "entity_key (NotamAd airport_icao) = [''notam_id'', ''airport_icao'']"
| "entity_key Snowtam = [''snowtam_id'']"
| "entity_key Airport = [''icao_code'']"
| "entity_key (Runway airport_icao) = [''airport_icao'', ''runway_id'', ''direction'']"
| "entity_key Navaid = [''navaid_id'']"
| "entity_key Obstacle = [''obstacle_id'']"
| "entity_key (FlightPlan direction) = [''callsign'', ''departure_time'', ''crawled_date'']"
| "entity_key Metar = [''airport_icao'', ''observation_time'']"

text \<open>The row that a save of the record inserts: the statement's columns with the
  bound parameters (no row when a parameter cannot be bound).\<close>

definition entity_row :: "entity \<Rightarrow> runtime \<Rightarrow> pydict \<Rightarrow> row option" where
  "entity_row ent rt d =
     (case bind_params (entity_params ent rt d) of
        Inl e \<Rightarrow> None
      | Inr vals \<Rightarrow> Some (zip (entity_columns ent) vals))"

text \<open>The rows of a table that agree with a row on the columns of a key.\<close>

definition rows_for_key :: "database \<Rightarrow> string \<Rightarrow> string list \<Rightarrow> row \<Rightarrow> row list" where
  "rows_for_key db tbl u new =
     (case db tbl of
        None \<Rightarrow> []
      | Some t \<Rightarrow> filter (\<lambda>old. list_all (\<lambda>c. col old c = col new c) u) (rows t))"

definition key_present :: "string list \<Rightarrow> row \<Rightarrow> bool" where
  "key_present u new = list_all (\<lambda>c. col new c \<noteq> SNull) u"

definition has_unique :: "database \<Rightarrow> string \<Rightarrow> string list \<Rightarrow> bool" where
  "has_unique db tbl u = (case db tbl of None \<Rightarrow> False | Some t \<Rightarrow> u \<in> set (uniques t))"

text \<open>
  The alias chains of the mappers, read off the \<open>or\<close> chains of \<open>get\<close> calls: the
  name tried first, the names tried before the alias, and the alias. A name that the
  same mapper reads for a second column is left out (\<open>fltNo\<close> and \<open>eobt\<close> in
  \<open>save_flight_plan\<close>).
\<close>

fun entity_aliases :: "entity \<Rightarrow> (string \<times> string list \<times> string) list" where
  "entity_aliases NotamFir =
     [(''notamId'', [], ''notamNo''), (''notamId'', [''notamNo''], ''id''),
      (''type'', [], ''notamType''), (''lowerLimit'', [], ''flLower''),
      (''upperLimit'', [], ''flUpper''), (''coordinates'', [], ''coord''),
      (''location'', [], ''ad''), (''validFrom'', [], ''fromDt''), (''validTo'', [], ''toDt''),
      (''fullText'', [], ''notamText''), (''fullText'', [''notamText''], ''eText'')]"
| "entity_aliases (NotamAd airport_icao) =
     [(''notamId'', [], ''notamNo''), (''notamId'', [''notamNo''], ''id''),
      (''ad'', [], ''airport''),
      (''type'', [], ''notamType''), (''lowerLimit'', [], ''flLower''),
      (''upperLimit'', [], ''flUpper''), (''coordinates'', [], ''coord''),
      (''validFrom'', [], ''fromDt''), (''validTo'', [], ''toDt''),
      (''fullText'', [], ''notamText''), (''fullText'', [''notamText''], ''eText'')]"
| "entity_aliases Snowtam =
     [(''snowtamId'', [], ''id''), (''ad'', [], ''airport''), (''fullText'', [], ''snowtamText'')]"
| "entity_aliases Airport =
     [(''icao'', [], ''icaoCode''), (''name'', [], ''apName''), (''city'', [], ''cityName''),
      (''usage'', [], ''usageType''), (''magVar'', [], ''magneticVariation''),
      (''elevation'', [], ''elevM''), (''latitude'', [], ''lat''), (''longitude'', [], ''lon''),
      (''verificationDate'', [], ''verDt'')]"
| "entity_aliases (Runway airport_icao) =
     [(''rwyId'', [], ''runwayId''), (''direction'', [], ''rwyDir''),
      (''length'', [], ''lengthM''), (''width'', [], ''widthM''),
      (''surface'', [], ''surfaceType''), (''strength'', [], ''pcn'')]"
| "entity_aliases Navaid =
     [(''navaidId'', [], ''id''), (''type'', [], ''navaidType''), (''frequency'', [], ''freq''),
      (''latitude'', [], ''lat''), (''longitude'', [], ''lon''), (''elevation'', [], ''elev''),
      (''airport'', [], ''ad'')]"
| "entity_aliases Obstacle =
     [(''obstId'', [], ''id''), (''type'', [], ''obstType''),
      (''latitude'', [], ''lat''), (''longitude'', [], ''lon''), (''elevation'', [], ''elev''),
      (''airport'', [], ''ad'')]"
| "entity_aliases (FlightPlan direction) =
     [(''callsign'', [], ''acid''), (''aircraftType'', [], ''acType''),
      (''registration'', [], ''reg''), (''departure'', [], ''depAd''),
      (''departure'', [''depAd''], ''adep''), (''arrival'', [], ''arrAd''),
      (''arrival'', [''arrAd''], ''ades''), (''alternate'', [], ''altnAd''),
      (''sta'', [], ''arrTime''), (''flightRules'', [], ''fltRules''),
      (''flightType'', [], ''fltType''), (''cruiseAlt'', [], ''rfl''),
      (''cruiseSpeed'', [], ''speed''), (''endurance'', [], ''eet''), (''remarks'', [], ''rmk'')]"
| "entity_aliases Metar =
     [(''airport'', [], ''ad''), (''obsTime'', [], ''time''), (''rawMetar'', [], ''metar''),
      (''rawMetar'', [''metar''], ''orgMsg''), (''windSpeed'', [], ''ws''),
      (''visibility'', [], ''vis''), (''temperature'', [], ''temp''), (''dewpoint'', [], ''dp''),
      (''pressure'', [], ''qnh'')]"

text \<open>The object that carries under the name \<open>p\<close> what \<open>d\<close> carries under \<open>a\<close>.\<close>

definition rename_key :: "string \<Rightarrow> string \<Rightarrow> pydict \<Rightarrow> pydict" where
  "rename_key a p d = map (\<lambda>kv. (if fst kv = a then p else fst kv, snd kv)) d"

text \<open>The mapped columns of a record: the columns of the inserted row with their
  parameters, without \<open>raw_data\<close>, which holds the text of the record itself.\<close>

definition mapped_columns :: "entity \<Rightarrow> runtime \<Rightarrow> pydict \<Rightarrow> (string \<times> pyval) list" where
  "mapped_columns ent rt d =
     filter (\<lambda>cv. fst cv \<noteq> ''raw_data'') (zip (entity_columns ent) (entity_params ent rt d))"

subsection \<open>Sample data\<close>

text \<open>
  A runtime, and a database with the nine tables that the save functions write, empty,
  with the columns that the statements name and the \<open>UNIQUE\<close> constraints of
  \<open>_create_tables\<close>. The witnesses evaluate the save functions on them.
\<close>

definition sample_runtime :: runtime where
  "sample_runtime =
     \<lparr>json_dumps = (\<lambda>v. ''{}''), now_isoformat = ''2026-01-11T09:00:00'',
      today = ''2026-01-11''\<rparr>"

definition empty_table :: "string list \<Rightarrow> string list list \<Rightarrow> table" where
  "empty_table cols us = \<lparr>columns = ''id'' # cols @ [''created_at''], uniques = us, rows = []\<rparr>"

definition sample_db :: database where
  "sample_db = map_of
     [(''notam_fir'', empty_table notam_fir_columns [[''notam_id'']]),
      (''notam_ad'', empty_table notam_ad_columns [[''notam_id'', ''airport_icao'']]),
      (''snowtam'', empty_table snowtam_columns [[''snowtam_id'']]),
      (''airports'', empty_table airport_columns [[''icao_code'']]),
      (''runways'', empty_table runway_columns [[''airport_icao'', ''runway_id'', ''direction'']]),
      (''navaids'', empty_table navaid_columns [[''navaid_id'']]),
      (''obstacles'', empty_table obstacle_columns [[''obstacle_id'']]),
      (''flight_plans'',
         empty_table flight_plan_columns [[''callsign'', ''departure_time'', ''crawled_date'']]),
      (''metar'', empty_table metar_columns [[''airport_icao'', ''observation_time'']])]"

definition sample_notam :: pyval where
  "sample_notam =
     PDict [(''notamId'', PStr ''A0001/26''), (''qCode'', PStr ''QMRLC''), (''ad'', PStr ''RKSI'')]"

definition sample_notam_alias :: pyval where
  "sample_notam_alias = PDict [(''notamNo'', PStr ''A0003/26''), (''notamText'', PStr ''RWY CLSD'')]"

definition unbindable_notam :: pyval where
  "unbindable_notam = PDict [(''notamId'', PStr ''A0002/26''), (''series'', PList [PStr ''A''])]"

definition keyless_notam :: pyval where
  "keyless_notam = PDict [(''series'', PStr ''A''), (''qCode'', PStr ''QMRLC'')]"

definition sample_snowtam :: pyval where
  "sample_snowtam = PDict [(''snowtamId'', PStr ''SW0001''), (''ad'', PStr ''RKSI'')]"

definition sample_snowtam_alias :: pyval where
  "sample_snowtam_alias = PDict [(''id'', PInt 7), (''airport'', PStr ''RKPC'')]"

definition keyless_snowtam :: pyval where
  "keyless_snowtam = PDict [(''snowtamId'', PStr []), (''ad'', PStr ''RKSI'')]"

definition sample_metar :: pyval where
  "sample_metar =
     PDict [(''ad'', PStr ''RKSI''), (''obsTime'', PStr ''2026-01-11T00:00:00Z''),
            (''orgMsg'', PStr ''RKSI 110000Z 09005KT'')]"

definition keyless_metar :: pyval where
  "keyless_metar = PDict [(''windDir'', PInt 90), (''ws'', PInt 5)]"

section \<open>The fetch-with-retry client\<close>










section \<open>The query facade\<close>

text \<open>
  \<open>lambda_handler.py\<close>. The query string parameters are a dictionary of strings. A
  response has a status code, headers and a body; the body is kept as the value that
  \<open>json.dumps\<close> serialises. The handlers below call \<open>create_response\<close> without an
  origin, so the header \<open>Access-Control-Allow-Origin\<close> is never set by them.
\<close>

type_synonym params = "(string \<times> string) list"

record http_response =
  statusCode :: int
  headers :: "(string \<times> string) list"
  body :: pyval






subsection \<open>Queries\<close>
















subsection \<open>The handlers\<close>
















section \<open>Properties: evaluation, the coordinate parser\<close>

lemmas float_eval = py_float_def strip_def is_space_def abs_float_value_def number_part_def
  digitpart_def is_digit_def digit_val_def exponent_part_def nat_of_digits_def pow10_def
  lower_char_def



lemma parse_coordinate_never_raises: "\<exists>r. parse_coordinate s = Inr r"
  by (simp add: parse_coordinate_def split: sum.splits)




text \<open>
  Claim C5 at the input \<open>-37.5\<close>: \<open>float\<close> reads the string as -37.5, and
  \<open>_parse_coordinate\<close> returns +37.5, because the minus sign sends the string into
  the sexagesimal branch, where it is taken for the hemisphere letter.
\<close>

theorem negative_decimal_loses_sign:
  "py_float ''-37.5'' = Inr (Finite (- 37.5))
   \<and> parse_coordinate ''-37.5'' = Inr (Some (Finite 37.5))"
  by (simp add: parse_coordinate_def parse_coordinate_try_def float_eval)

section \<open>Properties: the constructor of the store\<close>

lemma index_statement_rejected:
  "parse_statement (tokens []
     ''CREATE INDEX IF NOT EXISTS idx_notam_fir_valid FROM notam_fir(valid_from)'') = None"
  by code_simp

lemma execute_index_raises:
  "execute_ddl db ''CREATE INDEX IF NOT EXISTS idx_notam_fir_valid FROM notam_fir(valid_from)''
     = Inl (OperationalError ''syntax error'')"
  by (simp only: execute_ddl_def index_statement_rejected option.case)

lemma execute_all_raises:
  "(\<And>db. execute_ddl db bad = Inl e) \<Longrightarrow> \<exists>e'. execute_all db (xs @ bad # ys) = Inl e'"
  by (induction xs arbitrary: db) (auto split: sum.splits)

lemma create_tables_sql_split:
  "create_tables_sql = take 13 create_tables_sql
     @ ''CREATE INDEX IF NOT EXISTS idx_notam_fir_valid FROM notam_fir(valid_from)''
     # drop 14 create_tables_sql"
  unfolding create_tables_sql_def by simp

lemma create_tables_raises: "\<exists>e. create_tables db = Inl e"
  unfolding create_tables_def
  by (subst create_tables_sql_split) (rule execute_all_raises, rule execute_index_raises)

text \<open>
  Claim C1. Whatever the path, and whatever creating the directory and opening the
  database give, \<open>UBIKAISDatabase.__init__\<close> ends with an exception: if nothing fails
  before, the first index statement, with \<open>FROM\<close> where the grammar has \<open>ON\<close>, is
  rejected, and no handler stands between that statement and the caller.
\<close>

theorem constructor_always_raises:
  "\<exists>e. UBIKAISDatabase_init env db_path = Inl e"
  using create_tables_raises
  by (auto simp: UBIKAISDatabase_init_def init_database_def split: option.splits sum.splits)

section \<open>Properties: the save functions\<close>

lemma same_schema_refl: "same_schema db db"
  by (simp add: same_schema_def)


lemma same_schema_sym: "same_schema a b \<Longrightarrow> same_schema b a"
  by (simp add: same_schema_def)

lemma insert_or_replace_schema:
  "insert_or_replace db tbl cols ps = Inr db' \<Longrightarrow> same_schema db db'"
  by (auto simp: insert_or_replace_def same_schema_def Let_def
           split: option.splits list.splits sum.splits)



















lemmas store_eval = save_notam_fir_def save_notam_ad_def save_snowtam_def
  save_notam_fir_row_def save_notam_ad_row_def save_snowtam_row_def
  notam_fir_notam_id_def notam_ad_notam_id_def snowtam_snowtam_id_def
  notam_fir_params_def notam_ad_params_def snowtam_params_def
  notam_fir_columns_def notam_ad_columns_def snowtam_columns_def
  insert_or_replace_def por_def dict_get_def sample_db_def sample_runtime_def empty_table_def
  same_key_def conflicts_def col_def written_def Let_def

lemmas sample_eval = sample_notam_def sample_notam_alias_def unbindable_notam_def
  keyless_notam_def sample_snowtam_def sample_snowtam_alias_def keyless_snowtam_def
  sample_metar_def keyless_metar_def















lemma same_key_present:
  "key_present u new \<Longrightarrow> same_key u new old = list_all (\<lambda>c. col old c = col new c) u"
  by (induction u) (auto simp: key_present_def same_key_def)

lemma insert_or_replace_unique:
  assumes ins: "insert_or_replace db tbl cols ps = Inr db'"
    and u: "has_unique db tbl u"
    and b: "bind_params ps = Inr vals"
    and k: "key_present u (zip cols vals)"
  shows "rows_for_key db' tbl u (zip cols vals) = [zip cols vals]"
proof -
  let ?new = "zip cols vals"
  let ?P = "\<lambda>old. list_all (\<lambda>c. col old c = col ?new c) u"
  obtain t where t: "db tbl = Some t" "u \<in> set (uniques t)"
    using u by (auto simp: has_unique_def split: option.splits)
  have db': "db' = db(tbl \<mapsto> t\<lparr>rows := filter (\<lambda>old. \<not> conflicts t ?new old) (rows t) @ [?new]\<rparr>)"
    using ins t b by (auto simp: insert_or_replace_def Let_def split: list.splits)
  have "?P old \<Longrightarrow> conflicts t ?new old" for old
    using t(2) same_key_present [OF k] by (auto simp: conflicts_def list_ex_iff)
  then have "filter ?P (filter (\<lambda>old. \<not> conflicts t ?new old) (rows t)) = []"
    by (auto simp: filter_empty_conv)
  moreover have "?P ?new" by (simp add: list_all_iff)
  ultimately show ?thesis by (simp add: rows_for_key_def db')
qed

lemmas saver_defs = save_notam_fir_def save_notam_ad_def save_snowtam_def
  save_notam_fir_row_def save_notam_ad_row_def save_snowtam_row_def
  save_airport_def save_runway_def save_navaid_def save_obstacle_def save_flight_plan_def
  save_metar_def

lemma save_entity_insert:
  "save_entity ent rt db (PDict d) = (db', True) \<Longrightarrow>
   insert_or_replace db (entity_table ent) (entity_columns ent) (entity_params ent rt d) = Inr db'"
  by (cases ent) (auto simp: saver_defs split: if_splits sum.splits prod.splits)

lemma save_entity_schema: "same_schema db (fst (save_entity ent rt db x))"
  by (cases ent; cases x)
     (auto simp: saver_defs same_schema_refl split: if_splits sum.splits prod.splits
           dest: insert_or_replace_schema)

lemma has_unique_schema: "same_schema db db' \<Longrightarrow> has_unique db tbl u \<Longrightarrow> has_unique db' tbl u"
proof -
  assume s: "same_schema db db'" and h: "has_unique db tbl u"
  from s have "map_option uniques (db tbl) = map_option uniques (db' tbl)"
    by (simp add: same_schema_def)
  with h show ?thesis
    by (cases "db tbl"; cases "db' tbl") (auto simp: has_unique_def)
qed

text \<open>
  Claim C3, as amended. For every entity type: when the second of two saves of the same
  record succeeds and the columns of the natural key in its row are not \<open>NULL\<close>, the
  table then holds exactly one row with these key values, and it is the row of the second
  call. The table has to carry the \<open>UNIQUE\<close> constraint of the natural key, as
  \<open>_create_tables\<close> declares it.
\<close>

theorem save_twice_one_row:
  assumes u: "has_unique db (entity_table ent) (entity_key ent)"
    and s: "save_entity ent rt2 (fst (save_entity ent rt1 db (PDict d))) (PDict d) = (db2, True)"
    and r: "entity_row ent rt2 d = Some new"
    and k: "key_present (entity_key ent) new"
  shows "rows_for_key db2 (entity_table ent) (entity_key ent) new = [new]"
proof -
  let ?db1 = "fst (save_entity ent rt1 db (PDict d))"
  have u1: "has_unique ?db1 (entity_table ent) (entity_key ent)"
    by (rule has_unique_schema [OF save_entity_schema u])
  obtain vals where v: "bind_params (entity_params ent rt2 d) = Inr vals"
    "new = zip (entity_columns ent) vals"
    using r by (auto simp: entity_row_def split: sum.splits)
  show ?thesis
    using insert_or_replace_unique [OF save_entity_insert [OF s] u1 v(1)] k v(2) by simp
qed

lemmas entity_eval = saver_defs store_eval sample_eval metar_params_def metar_columns_def
  entity_row_def key_present_def has_unique_def rows_for_key_def

theorem save_twice_one_row_witness:
  "rows_for_key
     (fst (save_entity Metar (sample_runtime\<lparr>now_isoformat := ''2026-01-11T10:00:00''\<rparr>)
             (fst (save_entity Metar sample_runtime sample_db sample_metar)) sample_metar))
     ''metar'' [''airport_icao'', ''observation_time'']
     [(''airport_icao'', SText ''RKSI''), (''observation_time'', SText ''2026-01-11T00:00:00Z''),
      (''raw_metar'', SText ''RKSI 110000Z 09005KT''), (''wind_direction'', SNull),
      (''wind_speed'', SNull), (''wind_gust'', SNull), (''visibility_m'', SNull),
      (''weather'', SNull), (''clouds'', SNull), (''temperature'', SNull), (''dewpoint'', SNull),
      (''pressure_hpa'', SNull), (''remarks'', SNull)]
   = [[(''airport_icao'', SText ''RKSI''), (''observation_time'', SText ''2026-01-11T00:00:00Z''),
       (''raw_metar'', SText ''RKSI 110000Z 09005KT''), (''wind_direction'', SNull),
       (''wind_speed'', SNull), (''wind_gust'', SNull), (''visibility_m'', SNull),
       (''weather'', SNull), (''clouds'', SNull), (''temperature'', SNull), (''dewpoint'', SNull),
       (''pressure_hpa'', SNull), (''remarks'', SNull)]]"
proof -
  let ?rt2 = "sample_runtime\<lparr>now_isoformat := ''2026-01-11T10:00:00''\<rparr>"
  let ?d = "[(''ad'', PStr ''RKSI''), (''obsTime'', PStr ''2026-01-11T00:00:00Z''),
             (''orgMsg'', PStr ''RKSI 110000Z 09005KT'')]"
  let ?row = "[(''airport_icao'', SText ''RKSI''),
      (''observation_time'', SText ''2026-01-11T00:00:00Z''),
      (''raw_metar'', SText ''RKSI 110000Z 09005KT''), (''wind_direction'', SNull),
      (''wind_speed'', SNull), (''wind_gust'', SNull), (''visibility_m'', SNull),
      (''weather'', SNull), (''clouds'', SNull), (''temperature'', SNull), (''dewpoint'', SNull),
      (''pressure_hpa'', SNull), (''remarks'', SNull)]"
  have u: "has_unique sample_db (entity_table Metar) (entity_key Metar)"
    by (simp add: entity_eval)
  have "snd (save_entity Metar ?rt2 (fst (save_entity Metar sample_runtime sample_db (PDict ?d)))
               (PDict ?d)) = True"
    by (simp add: entity_eval)
  then have s: "save_entity Metar ?rt2 (fst (save_entity Metar sample_runtime sample_db (PDict ?d)))
               (PDict ?d)
          = (fst (save_entity Metar ?rt2
                    (fst (save_entity Metar sample_runtime sample_db (PDict ?d))) (PDict ?d)), True)"
    by (simp add: prod_eq_iff)
  have r: "entity_row Metar ?rt2 ?d = Some ?row"
    by (simp add: entity_eval)
  have k: "key_present (entity_key Metar) ?row"
    by (simp add: entity_eval)
  show ?thesis
    using save_twice_one_row [OF u s r k] by (simp add: sample_metar_def)
qed

text \<open>
  Claim C3 as stated fails for a record whose natural key is present and whose insert
  raises: a FIR NOTAM with the id \<open>A0002/26\<close> and a list under \<open>series\<close> is not
  written by either call, and the table holds no row for it.
\<close>

theorem unbindable_record_counterexample:
  "notam_fir_notam_id [(''notamId'', PStr ''A0002/26''), (''series'', PList [PStr ''A''])]
     = PStr ''A0002/26''
   \<and> snd (save_notam_fir sample_runtime
            (fst (save_notam_fir sample_runtime sample_db [unbindable_notam]))
            [unbindable_notam]) = 0
   \<and> map_option rows
        (fst (save_notam_fir sample_runtime
               (fst (save_notam_fir sample_runtime sample_db [unbindable_notam]))
               [unbindable_notam]) ''notam_fir'') = Some []"
  by (simp add: entity_eval)

lemma map_of_rename_key:
  "map_of d p = None \<Longrightarrow>
   map_of (rename_key a p d) k
     = (if k = p then map_of d a else if k = a then None else map_of d k)"
  by (induction d) (auto simp: rename_key_def)

lemma dict_get_rename_key:
  "map_of d p = None \<Longrightarrow>
   dict_get (rename_key a p d) k
     = (if k = p then dict_get d a else if k = a then PNone else dict_get d k)"
  by (simp add: dict_get_def map_of_rename_key)

lemma dict_get_absent: "map_of d p = None \<Longrightarrow> dict_get d p = PNone"
  by (simp add: dict_get_def)

lemma por_simps:
  "por PNone y = y"
  "truthy x \<Longrightarrow> por x y = x"
  "\<not> truthy x \<Longrightarrow> por x y = y"
  by (simp_all add: por_def)

lemmas mapper_defs = mapped_columns_def
  notam_fir_params_def notam_fir_columns_def notam_fir_notam_id_def
  notam_ad_params_def notam_ad_columns_def notam_ad_notam_id_def
  snowtam_params_def snowtam_columns_def snowtam_snowtam_id_def
  airport_params_def airport_columns_def runway_params_def runway_columns_def
  navaid_params_def navaid_columns_def obstacle_params_def obstacle_columns_def
  flight_plan_params_def flight_plan_columns_def metar_params_def metar_columns_def

lemma mapped_notam_fir:
  assumes "(p, before, a) \<in> set (entity_aliases NotamFir)"
    and "map_of d p = None"
    and "list_all (\<lambda>k. \<not> truthy (dict_get d k)) before"
    and "truthy (dict_get d a)"
  shows "mapped_columns NotamFir rt (rename_key a p d) = mapped_columns NotamFir rt d"
  using assms
  apply (simp only: entity_aliases.simps list.set insert_iff empty_iff prod.inject)
  apply (elim disjE conjE FalseE; hypsubst_thin)
  apply (simp_all add: mapper_defs dict_get_rename_key dict_get_absent por_simps Let_def)
  done

lemma mapped_notam_ad:
  assumes "(p, before, a) \<in> set (entity_aliases (NotamAd airport_icao))"
    and "map_of d p = None"
    and "list_all (\<lambda>k. \<not> truthy (dict_get d k)) before"
    and "truthy (dict_get d a)"
  shows "mapped_columns (NotamAd airport_icao) rt (rename_key a p d) = mapped_columns (NotamAd airport_icao) rt d"
  using assms
  apply (simp only: entity_aliases.simps list.set insert_iff empty_iff prod.inject)
  apply (elim disjE conjE FalseE; hypsubst_thin)
  apply (cases "truthy airport_icao";
         simp add: mapper_defs dict_get_rename_key dict_get_absent por_simps Let_def)+
  done

lemma mapped_snowtam:
  assumes "(p, before, a) \<in> set (entity_aliases Snowtam)"
    and "map_of d p = None"
    and "list_all (\<lambda>k. \<not> truthy (dict_get d k)) before"
    and "truthy (dict_get d a)"
  shows "mapped_columns Snowtam rt (rename_key a p d) = mapped_columns Snowtam rt d"
  using assms
  apply (simp only: entity_aliases.simps list.set insert_iff empty_iff prod.inject)
  apply (elim disjE conjE FalseE; hypsubst_thin)
  apply (simp_all add: mapper_defs dict_get_rename_key dict_get_absent por_simps Let_def)
  done

lemma mapped_airport:
  assumes "(p, before, a) \<in> set (entity_aliases Airport)"
    and "map_of d p = None"
    and "list_all (\<lambda>k. \<not> truthy (dict_get d k)) before"
    and "truthy (dict_get d a)"
  shows "mapped_columns Airport rt (rename_key a p d) = mapped_columns Airport rt d"
  using assms
  apply (simp only: entity_aliases.simps list.set insert_iff empty_iff prod.inject)
  apply (elim disjE conjE FalseE; hypsubst_thin)
  apply (simp_all add: mapper_defs dict_get_rename_key dict_get_absent por_simps Let_def)
  done

lemma mapped_runway:
  assumes "(p, before, a) \<in> set (entity_aliases (Runway airport_icao))"
    and "map_of d p = None"
    and "list_all (\<lambda>k. \<not> truthy (dict_get d k)) before"
    and "truthy (dict_get d a)"
  shows "mapped_columns (Runway airport_icao) rt (rename_key a p d) = mapped_columns (Runway airport_icao) rt d"
  using assms
  apply (simp only: entity_aliases.simps list.set insert_iff empty_iff prod.inject)
  apply (elim disjE conjE FalseE; hypsubst_thin)
  apply (simp_all add: mapper_defs dict_get_rename_key dict_get_absent por_simps Let_def)
  done

lemma mapped_navaid:
  assumes "(p, before, a) \<in> set (entity_aliases Navaid)"
    and "map_of d p = None"
    and "list_all (\<lambda>k. \<not> truthy (dict_get d k)) before"
    and "truthy (dict_get d a)"
  shows "mapped_columns Navaid rt (rename_key a p d) = mapped_columns Navaid rt d"
  using assms
  apply (simp only: entity_aliases.simps list.set insert_iff empty_iff prod.inject)
  apply (elim disjE conjE FalseE; hypsubst_thin)
  apply (simp_all add: mapper_defs dict_get_rename_key dict_get_absent por_simps Let_def)
  done

lemma mapped_obstacle:
  assumes "(p, before, a) \<in> set (entity_aliases Obstacle)"
    and "map_of d p = None"
    and "list_all (\<lambda>k. \<not> truthy (dict_get d k)) before"
    and "truthy (dict_get d a)"
  shows "mapped_columns Obstacle rt (rename_key a p d) = mapped_columns Obstacle rt d"
  using assms
  apply (simp only: entity_aliases.simps list.set insert_iff empty_iff prod.inject)
  apply (elim disjE conjE FalseE; hypsubst_thin)
  apply (simp_all add: mapper_defs dict_get_rename_key dict_get_absent por_simps Let_def)
  done

lemma mapped_flight_plan:
  assumes "(p, before, a) \<in> set (entity_aliases (FlightPlan direction))"
    and "map_of d p = None"
    and "list_all (\<lambda>k. \<not> truthy (dict_get d k)) before"
    and "truthy (dict_get d a)"
  shows "mapped_columns (FlightPlan direction) rt (rename_key a p d) = mapped_columns (FlightPlan direction) rt d"
  using assms
  apply (simp only: entity_aliases.simps list.set insert_iff empty_iff prod.inject)
  apply (elim disjE conjE FalseE; hypsubst_thin)
  apply (simp_all add: mapper_defs dict_get_rename_key dict_get_absent por_simps Let_def)
  done

lemma mapped_metar:
  assumes "(p, before, a) \<in> set (entity_aliases Metar)"
    and "map_of d p = None"
    and "list_all (\<lambda>k. \<not> truthy (dict_get d k)) before"
    and "truthy (dict_get d a)"
  shows "mapped_columns Metar rt (rename_key a p d) = mapped_columns Metar rt d"
  using assms
  apply (simp only: entity_aliases.simps list.set insert_iff empty_iff prod.inject)
  apply (elim disjE conjE FalseE; hypsubst_thin)
  apply (simp_all add: mapper_defs dict_get_rename_key dict_get_absent por_simps Let_def)
  done

text \<open>
  Claim C6, as amended. The mappers resolve a field by an \<open>or\<close> chain: the first value
  that is true wins, so an empty string, a zero or \<open>False\<close> under an earlier name is
  passed over like a missing one. For every entity type and every alias of its chains
  that the mapper reads for one column only: if the object has no entry under the primary
  name, no true value under the names tried before the alias, and a true value under the
  alias, then the object that carries this value under the primary name gives the same
  mapped columns (all columns but \<open>raw_data\<close>, which keeps the object's own text).
\<close>

theorem alias_resolves_like_primary:
  assumes "(p, before, a) \<in> set (entity_aliases ent)"
    and "map_of d p = None"
    and "list_all (\<lambda>k. \<not> truthy (dict_get d k)) before"
    and "truthy (dict_get d a)"
  shows "mapped_columns ent rt (rename_key a p d) = mapped_columns ent rt d"
  using assms
  by (cases ent)
     (simp_all only: mapped_notam_fir mapped_notam_ad mapped_snowtam mapped_airport
        mapped_runway mapped_navaid mapped_obstacle mapped_flight_plan mapped_metar)

theorem alias_resolves_like_primary_witness:
  "mapped_columns NotamFir sample_runtime
     [(''notamId'', PStr ''A0003/26''), (''notamText'', PStr ''RWY CLSD'')]
   = mapped_columns NotamFir sample_runtime
       [(''notamNo'', PStr ''A0003/26''), (''notamText'', PStr ''RWY CLSD'')]
   \<and> mapped_columns Metar sample_runtime
       [(''ad'', PStr ''RKSI''), (''obsTime'', PStr ''2026-01-11T00:00:00Z''),
        (''rawMetar'', PStr ''RKSI 110000Z 09005KT'')]
   = mapped_columns Metar sample_runtime
       [(''ad'', PStr ''RKSI''), (''obsTime'', PStr ''2026-01-11T00:00:00Z''),
        (''orgMsg'', PStr ''RKSI 110000Z 09005KT'')]"
  using alias_resolves_like_primary [of "''notamId''" "[]" "''notamNo''" NotamFir
          "[(''notamNo'', PStr ''A0003/26''), (''notamText'', PStr ''RWY CLSD'')]" sample_runtime]
    alias_resolves_like_primary [of "''rawMetar''" "[''metar'']" "''orgMsg''" Metar
          "[(''ad'', PStr ''RKSI''), (''obsTime'', PStr ''2026-01-11T00:00:00Z''),
            (''orgMsg'', PStr ''RKSI 110000Z 09005KT'')]" sample_runtime]
  by (simp add: rename_key_def dict_get_def)

text \<open>
  Claim C6 as stated fails for a value that is present and not true: with the empty
  string under the alias \<open>notamType\<close> the column \<open>type\<close> becomes the empty string,
  with the empty string under the primary name \<open>type\<close> it becomes \<open>None\<close>.
\<close>

theorem empty_alias_value_counterexample:
  "rename_key ''notamType'' ''type'' [(''notamId'', PStr ''A0001/26''), (''notamType'', PStr [])]
     = [(''notamId'', PStr ''A0001/26''), (''type'', PStr [])]
   \<and> map_of (mapped_columns NotamFir sample_runtime
               [(''notamId'', PStr ''A0001/26''), (''notamType'', PStr [])]) ''type''
       = Some (PStr [])
   \<and> map_of (mapped_columns NotamFir sample_runtime
               [(''notamId'', PStr ''A0001/26''), (''type'', PStr [])]) ''type''
       = Some PNone"
  by (simp add: rename_key_def mapper_defs dict_get_def por_def)

section \<open>Properties: the fetch-with-retry client\<close>











section \<open>Properties: the query facade\<close>











end
